theory Spec2Isabelle
  imports Main
begin

section \<open>Data model\<close>

text \<open>
  The portal is a set of Django views over a relational database, the page cache, the
  mail backend and the Celery queue. Each view is modelled as a function from the state
  of these four stores and a log of the templates rendered so far (the \<open>world\<close>) and the
  request to the outcome of the view and the state it leaves behind. An outcome is either the response the view returns or the
  exception it raises; the state is returned in both cases, because a view that raises
  half-way keeps what it has already written.

  \<open>models.py\<close> is not among the sources. The rows below hold the fields the views read
  and write: ids are Python integers, a point in time is the number of microseconds since
  the epoch, the many-to-many relations (group membership, category subscribers) are
  tables of pairs, and \<open>author_profile\<close> of an article holds the profile row its
  foreign key refers to.
\<close>

type_synonym datetime = int

record User =
  user_id :: int
  username :: string
  email :: string
  is_active :: bool
  is_superuser :: bool

record Profile =
  profile_id :: int
  profile_user :: int

record Category =
  category_id :: int
  category_name :: string

record Article =
  article_id :: int
  title :: string
  content :: string
  publication_date :: datetime
  article_type :: bool
  category :: int
  author_profile :: Profile
  rating :: "int option"

record database =
  users :: "User list"
  groups :: "string list"
  user_groups :: "(int \<times> string) list"
  profiles :: "Profile list"
  categories :: "Category list"
  subscribers :: "(int \<times> int) list"
  articles :: "Article list"

text \<open>
  What a view can hand back. \<open>redirect\<close> is called either with a route name and its
  arguments or with a path; the login redirect of the access decorators carries the
  login URL it was configured with. The context of a rendered template is the list of
  its entries.
\<close>

datatype location =
    Named string "(string \<times> int) list"
  | Path string
  | LoginRedirect string

datatype response =
    HttpResponse string "(string \<times> ctx_value) list"
  | HttpResponseRedirect location
  | HttpResponseBadRequest string
  | HttpResponseForbidden
  | HttpResponseNotAllowed
  | HttpResponseOptions
and ctx_value =
    CtxArticle Article
  | CtxBool bool
  | CtxText string
  | CtxCategories "Category list"
  | CtxArticles "Article list"
  | CtxUsers "User list"
  | CtxNumber nat
  | CtxForm "(string \<rightharpoonup> string) option"
  | CtxResponse response

datatype exn =
    Http404
  | PermissionDenied
  | AttributeError string
  | DoesNotExist string
  | RelatedObjectDoesNotExist string
  | ValueError

type_synonym outcome = "exn + response"

text \<open>
  \<open>email_utils.py\<close> and \<open>tasks.py\<close> are not among the sources. A sent message is recorded
  with the call of \<open>EmailContentBuilder\<close> that produced its subject and body, the
  recipient list and the \<open>html_message\<close> flag passed to \<open>send_custom_email\<close>; a queued
  task is recorded with its argument.
\<close>

datatype email_content =
    generate_notification_email int int
  | generate_subscription_email int int
  | generate_welcome_email int int
  | generate_limit_email int nat string

record email_message =
  body :: email_content
  recipient_list :: "string list"
  html_message :: bool

datatype task = send_new_article_notification int

record world =
  db :: database
  cache :: "string \<rightharpoonup> response \<times> nat"
  outbox :: "email_message list"
  queue :: "task list"
  rendered :: "string list"

record request =
  req_method :: string
  req_user :: "User option"
  GET :: "string \<rightharpoonup> string"
  POST :: "string \<rightharpoonup> string"
  csrf_ok :: bool

section \<open>Python and framework primitives\<close>

text \<open>Truth value of the result of \<open>QueryDict.get\<close>: \<open>None\<close> and the empty string are false.\<close>

definition falsy :: "string option \<Rightarrow> bool" where
  "falsy x = (case x of None \<Rightarrow> True | Some s \<Rightarrow> s = [])"

definition str_value :: "string option \<Rightarrow> string" where
  "str_value x = (case x of None \<Rightarrow> [] | Some s \<Rightarrow> s)"

text \<open>Decimal text of an integer, as an f-string prints it.\<close>

function str_nat :: "nat \<Rightarrow> string" where
  "str_nat n =
     (if n < 10 then [''0123456789'' ! n]
      else str_nat (n div 10) @ [''0123456789'' ! (n mod 10)])"
  by pat_completeness auto
termination
  by (relation "measure (\<lambda>n. n)") auto

declare str_nat.simps [simp del]

definition str_int :: "int \<Rightarrow> string" where
  "str_int i = (if i < 0 then CHR ''-'' # str_nat (nat (- i)) else str_nat (nat i))"

text \<open>
  The text of a point in time inside a cache key. Python prints the calendar form of the
  datetime; the model prints the microsecond count. Both give equal texts for equal
  times, which is all the views rely on.
\<close>

definition str_datetime :: "datetime \<Rightarrow> string" where
  "str_datetime t = str_int t"

text \<open>
  The conversion the ORM applies to a textual id before a lookup: an optional sign and
  decimal digits. A text that is not a number raises \<open>ValueError\<close>. (Python's \<open>int\<close> also
  accepts surrounding white space and underscores between digits; such spellings are read
  as not a number here.)
\<close>

definition digit_of :: "char \<Rightarrow> nat option" where
  "digit_of c = map_of
     [(CHR ''0'', 0), (CHR ''1'', 1), (CHR ''2'', 2), (CHR ''3'', 3), (CHR ''4'', 4),
      (CHR ''5'', 5), (CHR ''6'', 6), (CHR ''7'', 7), (CHR ''8'', 8), (CHR ''9'', 9)] c"

fun digits_value :: "string \<Rightarrow> nat \<Rightarrow> nat option" where
  "digits_value [] acc = Some acc"
| "digits_value (c # cs) acc =
     (case digit_of c of None \<Rightarrow> None | Some d \<Rightarrow> digits_value cs (10 * acc + d))"

definition py_int :: "string \<Rightarrow> int option" where
  "py_int s =
     (case s of
        [] \<Rightarrow> None
      | c # cs \<Rightarrow>
          if c = CHR ''-'' then
            (if cs = [] then None else map_option (\<lambda>n. - int n) (digits_value cs 0))
          else if c = CHR ''+'' then
            (if cs = [] then None else map_option int (digits_value cs 0))
          else map_option int (digits_value s 0))"

text \<open>\<open>timezone.timedelta(days=n)\<close> in microseconds.\<close>

definition timedelta_days :: "int \<Rightarrow> int" where
  "timedelta_days n = n * 86400000000"

text \<open>\<open>render\<close>: builds the page and notes that the template was rendered.\<close>

definition render :: "world \<Rightarrow> string \<Rightarrow> (string \<times> ctx_value) list \<Rightarrow> response \<times> world" where
  "render w template_name ctx =
     (HttpResponse template_name ctx, w\<lparr>rendered := rendered w @ [template_name]\<rparr>)"

text \<open>A view that ends with \<open>return render(...)\<close>.\<close>

definition return_render :: "world \<Rightarrow> string \<Rightarrow> (string \<times> ctx_value) list \<Rightarrow> outcome \<times> world" where
  "return_render w template_name ctx =
     (case render w template_name ctx of (resp, w1) \<Rightarrow> (Inr resp, w1))"

text \<open>
  The page cache (\<open>django.core.cache.cache\<close>, configured with a backend of the repository
  that is not among the sources) as a store from keys to the cached value and the timeout
  it was stored with: \<open>get\<close>, \<open>set\<close> and \<open>delete\<close>. Expiry is the backend's concern and has
  no operation here.
\<close>

definition cache_get :: "world \<Rightarrow> string \<Rightarrow> response option" where
  "cache_get w key = map_option fst (cache w key)"

definition cache_set :: "world \<Rightarrow> string \<Rightarrow> response \<Rightarrow> nat \<Rightarrow> world" where
  "cache_set w key val timeout = w\<lparr>cache := (cache w)(key \<mapsto> (val, timeout))\<rparr>"

definition cache_delete :: "world \<Rightarrow> string \<Rightarrow> world" where
  "cache_delete w key = w\<lparr>cache := (cache w)(key := None)\<rparr>"

text \<open>
  Modelled from the spec: \<open>send_custom_email\<close> of the absent \<open>email_utils.py\<close> sends one
  message to the recipient list it is given.
\<close>

definition send_custom_email :: "world \<Rightarrow> email_content \<Rightarrow> string list \<Rightarrow> bool \<Rightarrow> world" where
  "send_custom_email w subject_message recipients html =
     w\<lparr>outbox := outbox w @
        [\<lparr>body = subject_message, recipient_list = recipients, html_message = html\<rparr>]\<rparr>"

text \<open>\<open>task.delay(arg)\<close>: one task is put on the queue.\<close>

definition delay :: "world \<Rightarrow> task \<Rightarrow> world" where
  "delay w t = w\<lparr>queue := queue w @ [t]\<rparr>"

text \<open>
  The id the database gives a new row is one no row of the table has; the model takes one
  more than the largest id in the table.
\<close>

definition fresh_id :: "int list \<Rightarrow> int" where
  "fresh_id ids = fold max ids 0 + 1"

text \<open>Queries.\<close>

definition in_group :: "database \<Rightarrow> User \<Rightarrow> string \<Rightarrow> bool" where
  "in_group d u name = ((user_id u, name) \<in> set (user_groups d))"

definition user_profile :: "database \<Rightarrow> User \<Rightarrow> Profile option" where
  "user_profile d u = find (\<lambda>p. profile_user p = user_id u) (profiles d)"

definition subscribers_all :: "database \<Rightarrow> int \<Rightarrow> User list" where
  "subscribers_all d cid = filter (\<lambda>u. (cid, user_id u) \<in> set (subscribers d)) (users d)"

definition find_article :: "database \<Rightarrow> int \<Rightarrow> Article option" where
  "find_article d i = find (\<lambda>a. article_id a = i) (articles d)"

definition find_category :: "database \<Rightarrow> int \<Rightarrow> Category option" where
  "find_category d i = find (\<lambda>c. category_id c = i) (categories d)"

definition find_user :: "database \<Rightarrow> int \<Rightarrow> User option" where
  "find_user d i = find (\<lambda>u. user_id u = i) (users d)"

text \<open>\<open>obj.save()\<close> of a row that has an id: the row with that id is replaced.\<close>

definition save_article :: "world \<Rightarrow> Article \<Rightarrow> world" where
  "save_article w a =
     w\<lparr>db := (db w)\<lparr>articles :=
        map (\<lambda>x. if article_id x = article_id a then a else x) (articles (db w))\<rparr>\<rparr>"

definition delete_article :: "world \<Rightarrow> Article \<Rightarrow> world" where
  "delete_article w a =
     w\<lparr>db := (db w)\<lparr>articles :=
        filter (\<lambda>x. article_id x \<noteq> article_id a) (articles (db w))\<rparr>\<rparr>"

definition save_user :: "world \<Rightarrow> User \<Rightarrow> world" where
  "save_user w u =
     w\<lparr>db := (db w)\<lparr>users :=
        map (\<lambda>x. if user_id x = user_id u then u else x) (users (db w))\<rparr>\<rparr>"

section \<open>news/utils.py\<close>

definition get_article_cache_key :: "int \<Rightarrow> datetime \<Rightarrow> string" where
  "get_article_cache_key aid pub_date =
     ''article_'' @ str_int aid @ ''_'' @ str_datetime pub_date"

text \<open>\<open>get_object_or_404(Category, id=category_id)\<close> on the text taken from the form.\<close>

definition get_category_by_id :: "database \<Rightarrow> string \<Rightarrow> exn + Category" where
  "get_category_by_id d cid_text =
     (case py_int cid_text of
        None \<Rightarrow> Inl ValueError
      | Some i \<Rightarrow> (case find_category d i of None \<Rightarrow> Inl Http404 | Some c \<Rightarrow> Inr c))"

section \<open>news/views.py: BaseArticleView\<close>

text \<open>
  \<open>get_article\<close> hands back one of two kinds of object: the article it found, or, for an
  \<open>article_type\<close> other than \<open>'0'\<close> and \<open>'1'\<close>, a Bad Request response object. It
  returns that response to its caller; it does not raise it.
\<close>

datatype fetched = ArticleObject Article | ResponseObject response

definition get_article :: "database \<Rightarrow> int \<Rightarrow> string option \<Rightarrow> exn + fetched" where
  "get_article d pk type_param =
     (if type_param \<notin> set [Some ''0'', Some ''1''] then
        Inr (ResponseObject (HttpResponseBadRequest ''Invalid article_type''))
      else
        let type_value = (type_param = Some ''1'') in
        case find (\<lambda>a. article_id a = pk \<and> article_type a = type_value) (articles d) of
          None \<Rightarrow> Inl Http404
        | Some a \<Rightarrow> Inr (ArticleObject a))"

definition ctx_of_fetched :: "fetched \<Rightarrow> ctx_value" where
  "ctx_of_fetched obj = (case obj of ArticleObject a \<Rightarrow> CtxArticle a | ResponseObject r \<Rightarrow> CtxResponse r)"

definition clear_article_cache :: "world \<Rightarrow> Article \<Rightarrow> world" where
  "clear_article_cache w a =
     cache_delete w (get_article_cache_key (article_id a) (publication_date a))"

definition get_article_from_cache :: "world \<Rightarrow> int \<Rightarrow> datetime \<Rightarrow> response option" where
  "get_article_from_cache w aid pub_date = cache_get w (get_article_cache_key aid pub_date)"

definition set_article_to_cache :: "world \<Rightarrow> Article \<Rightarrow> response \<Rightarrow> nat \<Rightarrow> world" where
  "set_article_to_cache w a resp timeout =
     cache_set w (get_article_cache_key (article_id a) (publication_date a)) resp timeout"

text \<open>The loop over the subscribers of the article's category, one message each.\<close>

fun notify_subscribers :: "world \<Rightarrow> Article \<Rightarrow> User list \<Rightarrow> world" where
  "notify_subscribers w a [] = w"
| "notify_subscribers w a (subscriber # rest) =
     notify_subscribers
       (send_custom_email w (generate_notification_email (article_id a) (user_id subscriber))
          [email subscriber] True)
       a rest"

definition send_article_notification :: "world \<Rightarrow> Article \<Rightarrow> bool \<Rightarrow> world" where
  "send_article_notification w a use_celery =
     (if use_celery then delay w (send_new_article_notification (article_id a))
      else notify_subscribers w a (subscribers_all (db w) (category a)))"

section \<open>news/views.py: the article views\<close>

text \<open>
  The texts shown to the user are Russian in the source; they are written here in Latin
  transliteration.
\<close>

definition all_fields_required :: string where
  "all_fields_required = ''Vse polya dolzhny byt zapolneny.''"

text \<open>
  A response object is always true in a Python condition, so \<open>if cached_response\<close>
  distinguishes exactly a hit from a miss.
\<close>

definition ArticleDetailView_get :: "world \<Rightarrow> request \<Rightarrow> int \<Rightarrow> outcome \<times> world" where
  "ArticleDetailView_get w req i =
     (case find_article (db w) i of
        None \<Rightarrow> (Inl Http404, w)
      | Some a \<Rightarrow>
          (case get_article_from_cache w (article_id a) (publication_date a) of
             Some cached_response \<Rightarrow> (Inr cached_response, w)
           | None \<Rightarrow>
               (case render w ''news/article_detail.html''
                       [(''article'', CtxArticle a),
                        (''user_is_author'',
                           CtxBool (case req_user req of
                                      None \<Rightarrow> False
                                    | Some u \<Rightarrow> user_id u = profile_user (author_profile a)))]
                of (resp, w1) \<Rightarrow> (Inr resp, set_article_to_cache w1 a resp 300))))"

definition test_func :: "database \<Rightarrow> User \<Rightarrow> bool" where
  "test_func d u = (is_superuser u \<or> in_group d u ''authors'')"


definition ArticleCreateView_post :: "datetime \<Rightarrow> world \<Rightarrow> request \<Rightarrow> outcome \<times> world" where
  "ArticleCreateView_post now w req =
     (let title_v = POST req ''title'';
          content_v = POST req ''content'';
          category_v = POST req ''category'';
          type_param = GET req ''article_type''
      in
      if falsy title_v \<or> falsy content_v \<or> falsy category_v then
        return_render w ''news/create_news.html''
          [(''error'', CtxText all_fields_required),
           (''categories'', CtxCategories (categories (db w)))]
      else
        case get_category_by_id (db w) (str_value category_v) of
          Inl e \<Rightarrow> (Inl e, w)
        | Inr c \<Rightarrow>
            (case req_user req of
               None \<Rightarrow> (Inl (AttributeError ''profile''), w)
             | Some u \<Rightarrow>
                 (case user_profile (db w) u of
                    None \<Rightarrow> (Inl (RelatedObjectDoesNotExist ''profile''), w)
                  | Some p \<Rightarrow>
                      let a = \<lparr>article_id = fresh_id (map article_id (articles (db w))),
                               title = str_value title_v,
                               content = str_value content_v,
                               publication_date = now,
                               article_type = (type_param = Some ''news''),
                               category = category_id c,
                               author_profile = p,
                               rating = None\<rparr>;
                          w1 = w\<lparr>db := (db w)\<lparr>articles := articles (db w) @ [a]\<rparr>\<rparr>;
                          w2 = send_article_notification w1 a True
                      in (Inr (HttpResponseRedirect (Named ''article_list'' [])), w2))))"

definition ArticleEditView_get :: "world \<Rightarrow> request \<Rightarrow> int \<Rightarrow> outcome \<times> world" where
  "ArticleEditView_get w req pk =
     (case get_article (db w) pk (GET req ''article_type'') of
        Inl e \<Rightarrow> (Inl e, w)
      | Inr (ResponseObject r) \<Rightarrow> (Inl (AttributeError ''article_type''), w)
      | Inr (ArticleObject a) \<Rightarrow>
          return_render w (if article_type a then ''news/edit_news.html''
                    else ''news/articles/edit_article.html'')
            [(''article'', CtxArticle a)])"

definition ArticleEditView_post :: "datetime \<Rightarrow> world \<Rightarrow> request \<Rightarrow> int \<Rightarrow> outcome \<times> world" where
  "ArticleEditView_post now w req pk =
     (case get_article (db w) pk (GET req ''article_type'') of
        Inl e \<Rightarrow> (Inl e, w)
      | Inr obj \<Rightarrow>
          let title_v = POST req ''title'';
              content_v = POST req ''content''
          in
          if falsy title_v \<or> falsy content_v then
            return_render w ''news/edit_news.html''
              [(''error'', CtxText all_fields_required), (''article'', ctx_of_fetched obj)]
          else
            (case obj of
               ResponseObject r \<Rightarrow> (Inl (AttributeError ''id''), w)
             | ArticleObject a \<Rightarrow>
                 let w1 = clear_article_cache w a;
                     a1 = a\<lparr>title := str_value title_v\<rparr>;
                     a2 = a1\<lparr>content := str_value content_v\<rparr>;
                     a3 = a2\<lparr>publication_date := now\<rparr>;
                     w2 = save_article w1 a3
                 in (Inr (HttpResponseRedirect (Named ''article_detail'' [(''id'', article_id a3)])),
                     w2)))"

definition ArticleDeleteView_get :: "world \<Rightarrow> request \<Rightarrow> int \<Rightarrow> outcome \<times> world" where
  "ArticleDeleteView_get w req pk =
     (case get_article (db w) pk (GET req ''article_type'') of
        Inl e \<Rightarrow> (Inl e, w)
      | Inr (ResponseObject r) \<Rightarrow> (Inl (AttributeError ''article_type''), w)
      | Inr (ArticleObject a) \<Rightarrow>
          return_render w (if article_type a then ''news/delete_news.html''
                    else ''news/articles/delete_article.html'')
            [(''item'', CtxArticle a)])"

definition ArticleDeleteView_post :: "world \<Rightarrow> request \<Rightarrow> int \<Rightarrow> outcome \<times> world" where
  "ArticleDeleteView_post w req pk =
     (case get_article (db w) pk (GET req ''article_type'') of
        Inl e \<Rightarrow> (Inl e, w)
      | Inr (ResponseObject r) \<Rightarrow> (Inl (AttributeError ''id''), w)
      | Inr (ArticleObject a) \<Rightarrow>
          let w1 = clear_article_cache w a;
              w2 = delete_article w1 a
          in (Inr (HttpResponseRedirect (Named ''article_list'' [])), w2))"

text \<open>
  \<open>View.dispatch\<close> of a class-based view chooses the handler by the request method: \<open>get\<close>
  also answers HEAD, \<open>options\<close> is the one every view inherits, and a method without a
  handler is not allowed.
\<close>

definition as_view ::
  "(world \<Rightarrow> request \<Rightarrow> outcome \<times> world) \<Rightarrow> (world \<Rightarrow> request \<Rightarrow> outcome \<times> world) option \<Rightarrow>
   world \<Rightarrow> request \<Rightarrow> outcome \<times> world" where
  "as_view get_handler post_handler w req =
     (if req_method req = ''GET'' \<or> req_method req = ''HEAD'' then get_handler w req
      else if req_method req = ''POST'' then
        (case post_handler of
           None \<Rightarrow> (Inr HttpResponseNotAllowed, w)
         | Some handler \<Rightarrow> handler w req)
      else if req_method req = ''OPTIONS'' then (Inr HttpResponseOptions, w)
      else (Inr HttpResponseNotAllowed, w))"

text \<open>
  \<open>LoginRequiredMixin\<close> and \<open>UserPassesTestMixin\<close> in front of the handlers of the create,
  edit and delete views: an anonymous request is sent to the login page, a user who fails
  \<open>test_func\<close> is refused, and only then is the handler chosen.
\<close>

definition dispatch ::
  "(world \<Rightarrow> request \<Rightarrow> outcome \<times> world) \<Rightarrow> (world \<Rightarrow> request \<Rightarrow> outcome \<times> world) \<Rightarrow>
   world \<Rightarrow> request \<Rightarrow> outcome \<times> world" where
  "dispatch get_handler post_handler w req =
     (case req_user req of
        None \<Rightarrow> (Inr (HttpResponseRedirect (LoginRedirect ''/login/'')), w)
      | Some u \<Rightarrow>
          if \<not> test_func (db w) u then (Inl PermissionDenied, w)
          else as_view get_handler (Some post_handler) w req)"

definition ArticleEditView :: "datetime \<Rightarrow> world \<Rightarrow> request \<Rightarrow> int \<Rightarrow> outcome \<times> world" where
  "ArticleEditView now w req pk =
     dispatch (\<lambda>w r. ArticleEditView_get w r pk) (\<lambda>w r. ArticleEditView_post now w r pk) w req"

definition ArticleDeleteView :: "world \<Rightarrow> request \<Rightarrow> int \<Rightarrow> outcome \<times> world" where
  "ArticleDeleteView w req pk =
     dispatch (\<lambda>w r. ArticleDeleteView_get w r pk) (\<lambda>w r. ArticleDeleteView_post w r pk) w req"


text \<open>
  What the framework answers for an outcome: the status of the response, 404 for
  \<open>Http404\<close>, 403 for \<open>PermissionDenied\<close>, and 500 for any other exception.
\<close>

fun status_code :: "outcome \<Rightarrow> nat" where
  "status_code (Inr (HttpResponse t c)) = 200"
| "status_code (Inr (HttpResponseRedirect l)) = 302"
| "status_code (Inr (HttpResponseBadRequest m)) = 400"
| "status_code (Inr HttpResponseForbidden) = 403"
| "status_code (Inr HttpResponseNotAllowed) = 405"
| "status_code (Inr HttpResponseOptions) = 200"
| "status_code (Inl Http404) = 404"
| "status_code (Inl PermissionDenied) = 403"
| "status_code (Inl e) = 500"

section \<open>news/views.py: subscription and the posting limit\<close>

text \<open>
  \<open>csrf_protect\<close> refuses a request whose CSRF check fails, \<open>login_required\<close> sends an
  anonymous request to the login URL. The article id arrives as text in the POST data;
  absent, the lookup is for the id \<open>None\<close> and finds nothing. \<open>request.user not in
  category.subscribers.all()\<close> compares the user with the subscribers by primary key.
\<close>

definition subscribe_to_category :: "world \<Rightarrow> request \<Rightarrow> int \<Rightarrow> outcome \<times> world" where
  "subscribe_to_category w req cid =
     (if \<not> csrf_ok req then (Inr HttpResponseForbidden, w)
      else
        case req_user req of
          None \<Rightarrow> (Inr (HttpResponseRedirect (LoginRedirect ''/login/'')), w)
        | Some u \<Rightarrow>
            (case find_category (db w) cid of
               None \<Rightarrow> (Inl Http404, w)
             | Some c \<Rightarrow>
                 (case POST req ''article_id'' of
                    None \<Rightarrow> (Inl Http404, w)
                  | Some aid_text \<Rightarrow>
                      (case py_int aid_text of
                         None \<Rightarrow> (Inl ValueError, w)
                       | Some aid \<Rightarrow>
                           (case find_article (db w) aid of
                              None \<Rightarrow> (Inl Http404, w)
                            | Some a \<Rightarrow>
                                let w3 =
                                  (if user_id u \<notin> set (map user_id (subscribers_all (db w) (category_id c)))
                                   then
                                     let w1 = w\<lparr>db := (db w)\<lparr>subscribers :=
                                                subscribers (db w) @ [(category_id c, user_id u)]\<rparr>\<rparr>;
                                         w2 = clear_article_cache w1 a
                                     in send_custom_email w2
                                          (generate_subscription_email (user_id u) (category_id c))
                                          [email u] False
                                   else w)
                                in (Inr (HttpResponseRedirect
                                           (Named ''article_detail'' [(''id'', article_id a)])),
                                    w3))))))"

text \<open>
  Modelled from the spec: \<open>is_author_or_superuser\<close> of the absent \<open>mixins.py\<close> accepts an
  author or a superuser, as \<open>test_func\<close> of the article views does.
\<close>

definition is_author_or_superuser :: "database \<Rightarrow> User option \<Rightarrow> bool" where
  "is_author_or_superuser d user =
     (case user of None \<Rightarrow> False | Some u \<Rightarrow> is_superuser u \<or> in_group d u ''authors'')"

definition posts_since :: "database \<Rightarrow> Profile \<Rightarrow> datetime \<Rightarrow> nat" where
  "posts_since d p time_threshold =
     length (filter (\<lambda>a. author_profile a = p \<and> time_threshold \<le> publication_date a)
               (articles d))"

definition limit_message :: "nat \<Rightarrow> string" where
  "limit_message post_limit =
     ''Vy ne mozhete publikovat bolee '' @ str_nat post_limit @ '' postov v sutki.''"

definition check_post_limit :: "datetime \<Rightarrow> world \<Rightarrow> request \<Rightarrow> outcome \<times> world" where
  "check_post_limit now w req =
     (if \<not> is_author_or_superuser (db w) (req_user req) then
        (Inr (HttpResponseRedirect (LoginRedirect ''permission_denied'')), w)
      else
        (case req_user req of
           None \<Rightarrow> (Inl (AttributeError ''profile''), w)
         | Some u \<Rightarrow>
             (let type_param = GET req ''article_type'' in
              if type_param \<notin> set [Some ''news'', Some ''article''] then
                (Inr (HttpResponseBadRequest ''Invalid article_type parameter''), w)
              else
                (let post_limit = (if in_group (db w) u ''premium'' then (5::nat) else 3);
                     time_threshold = now - timedelta_days 1
                 in
                 (case user_profile (db w) u of
                    None \<Rightarrow> (Inl (RelatedObjectDoesNotExist ''profile''), w)
                  | Some p \<Rightarrow>
                      (let posts_last_24_hours = posts_since (db w) p time_threshold in
                       if posts_last_24_hours < post_limit then
                         (Inr (HttpResponseRedirect
                                 (Path (''/create/?article_type='' @ str_value type_param))), w)
                       else
                         (let group_name = (if in_group (db w) u ''premium'' then ''premium''
                                            else ''basic'');
                              w1 = send_custom_email w
                                     (generate_limit_email (user_id u) post_limit group_name)
                                     [email u] False
                          in return_render w1 ''news/post_limit_exceeded.html''
                               [(''error_message'', CtxText (limit_message post_limit))])))))))"

section \<open>news/views_auth.py\<close>

text \<open>
  \<open>Group.objects.get(name=...)\<close> raises when no group of that name exists; adding a
  member a second time changes nothing.
\<close>

definition add_user_to_group :: "world \<Rightarrow> User \<Rightarrow> string \<Rightarrow> exn + world" where
  "add_user_to_group w u group_name =
     (if group_name \<notin> set (groups (db w)) then Inl (DoesNotExist ''Group'')
      else if (user_id u, group_name) \<in> set (user_groups (db w)) then Inr w
      else Inr (w\<lparr>db := (db w)\<lparr>user_groups := user_groups (db w) @ [(user_id u, group_name)]\<rparr>\<rparr>))"

text \<open>
  \<open>forms.py\<close> is not among the sources: the validity check of \<open>CustomUserCreationForm\<close> is
  a parameter of the view, and \<open>form.save(commit=False)\<close> builds an unsaved user (active,
  as a new Django user is, and without an id) from the submitted name and address.
\<close>

definition form_save_uncommitted :: "(string \<rightharpoonup> string) \<Rightarrow> User" where
  "form_save_uncommitted data =
     \<lparr>user_id = 0, username = str_value (data ''username''), email = str_value (data ''email''),
      is_active = True, is_superuser = False\<rparr>"

text \<open>\<open>user.save()\<close> of a user without an id: a new row with a fresh id.\<close>

definition insert_user :: "world \<Rightarrow> User \<Rightarrow> User \<times> world" where
  "insert_user w u =
     (let u1 = u\<lparr>user_id := fresh_id (map user_id (users (db w)))\<rparr>
      in (u1, w\<lparr>db := (db w)\<lparr>users := users (db w) @ [u1]\<rparr>\<rparr>))"


definition RegisterView_post ::
  "(database \<Rightarrow> (string \<rightharpoonup> string) \<Rightarrow> bool) \<Rightarrow> int \<Rightarrow> world \<Rightarrow> request \<Rightarrow> outcome \<times> world" where
  "RegisterView_post is_valid WELCOME_EMAIL_VARIANT w req =
     (if is_valid (db w) (POST req) then
        let u0 = form_save_uncommitted (POST req);
            u1 = u0\<lparr>is_active := False\<rparr>
        in
        case insert_user w u1 of (u, w1) \<Rightarrow>
          (case add_user_to_group w1 u ''basic'' of
             Inl e \<Rightarrow> (Inl e, w1)
           | Inr w2 \<Rightarrow>
               let w3 = send_custom_email w2
                          (generate_welcome_email (user_id u) WELCOME_EMAIL_VARIANT)
                          [email u] False
               in (Inr (HttpResponseRedirect (Named ''login'' [])), w3))
      else
        return_render w ''registration/register.html'' [(''form'', CtxForm (Some (POST req)))])"

definition ActivateAccountView_get :: "world \<Rightarrow> request \<Rightarrow> int \<Rightarrow> outcome \<times> world" where
  "ActivateAccountView_get w req uid =
     (case find_user (db w) uid of
        None \<Rightarrow> (Inl Http404, w)
      | Some u \<Rightarrow>
          let u1 = u\<lparr>is_active := True\<rparr>;
              w1 = save_user w u1
          in (Inr (HttpResponseRedirect (Named ''login'' [])), w1))"

section \<open>The remaining views and the routes\<close>

text \<open>
  The other views of \<open>news/views.py\<close> and \<open>news/views_auth.py\<close> that \<open>news/urls.py\<close> routes.
  What they compute with the framework or with absent code of the repository is a
  parameter, collected in one record with the parameters of the views above: the clock
  and the setting of the welcome message; the check of the registration form; the cache
  key of \<open>cache_page\<close>, whether the framework still knows the headers that key is built
  from, and whether it holds a response fit to be stored; the paginator; the entries of
  the search page computed with the ORM and \<open>filters.py\<close> (filter set, page, parameter
  text, ratings); the check of the credentials at login; the forms of the profile and of
  the password change. The session and the password of a user are not among the
  stores.
\<close>

record environment =
  env_now :: datetime
  env_welcome_variant :: int
  env_registration_valid :: "database \<Rightarrow> (string \<rightharpoonup> string) \<Rightarrow> bool"
  env_page_key :: "request \<Rightarrow> string"
  env_page_headers_known :: "request \<Rightarrow> bool"
  env_page_cacheable :: "request \<Rightarrow> response \<Rightarrow> bool"
  env_get_page :: "Article list \<Rightarrow> string option \<Rightarrow> nat \<Rightarrow> Article list"
  env_search_results :: "database \<Rightarrow> (string \<rightharpoonup> string) \<Rightarrow> exn + (string \<times> ctx_value) list"
  env_authenticate :: "database \<Rightarrow> (string \<rightharpoonup> string) \<Rightarrow> User option"
  env_profile_form_valid :: "database \<Rightarrow> User \<Rightarrow> (string \<rightharpoonup> string) \<Rightarrow> bool"
  env_profile_form_save :: "User \<Rightarrow> (string \<rightharpoonup> string) \<Rightarrow> User"
  env_password_form_valid :: "database \<Rightarrow> User \<Rightarrow> (string \<rightharpoonup> string) \<Rightarrow> bool"

text \<open>
  \<open>cache_page(timeout)\<close>, the framework's decorator. Only GET and HEAD are served from
  the cache. The page is looked up under the key of the request, which the framework can
  build only while it knows the headers the page varies on; a page it finds is the
  answer. Otherwise the view runs, and a response with status 200 that is fit to be
  stored is put under the key with the timeout. The decorator gets and sets; it never
  deletes.
\<close>

definition cache_page ::
  "environment \<Rightarrow> nat \<Rightarrow> (world \<Rightarrow> request \<Rightarrow> outcome \<times> world) \<Rightarrow> world \<Rightarrow> request \<Rightarrow> outcome \<times> world" where
  "cache_page env timeout view w req =
     (if req_method req \<noteq> ''GET'' \<and> req_method req \<noteq> ''HEAD'' then view w req
      else
        case (if env_page_headers_known env req then cache_get w (env_page_key env req) else None) of
          Some cached_response \<Rightarrow> (Inr cached_response, w)
        | None \<Rightarrow>
            (case view w req of
               (Inl e, w1) \<Rightarrow> (Inl e, w1)
             | (Inr resp, w1) \<Rightarrow>
                 if status_code (Inr resp) = 200 \<and> env_page_cacheable env req resp
                 then (Inr resp, cache_set w1 (env_page_key env req) resp timeout)
                 else (Inr resp, w1)))"

definition home_view :: "world \<Rightarrow> request \<Rightarrow> outcome \<times> world" where
  "home_view w req = return_render w ''news/home.html'' []"

definition home :: "environment \<Rightarrow> world \<Rightarrow> request \<Rightarrow> outcome \<times> world" where
  "home env w req = cache_page env 60 home_view w req"

















text \<open>
  The routes of \<open>news/urls.py\<close> that lead to a view of the repository. The routes to
  views that are the framework's own, with nothing of the repository but a template name
  (admin, logout, the \<open>allauth\<close> pages, password reset), are not among them. The redirect
  of \<open>accounts/login/\<close> is routed behind the \<open>allauth\<close> pages, which answer that path first.
\<close>

datatype route =
    home_route
  | article_list
  | article_detail int
  | article_search
  | create_post
  | edit_post int
  | delete_post int
  | login
  | register
  | profile
  | edit_profile
  | change_password
  | password_change
  | password_change_done
  | permission_denied
  | subscribe_to_category_route int
  | accounts_login_redirect
  | activate_account int
  | check_post_limit_route


section \<open>Expected values and sample data\<close>

text \<open>The page the detail view renders for an article, as the requester sees it.\<close>

definition detail_page :: "request \<Rightarrow> Article \<Rightarrow> response" where
  "detail_page req a =
     HttpResponse ''news/article_detail.html''
       [(''article'', CtxArticle a),
        (''user_is_author'',
           CtxBool (case req_user req of
                      None \<Rightarrow> False
                    | Some u \<Rightarrow> user_id u = profile_user (author_profile a)))]"

text \<open>The message a subscriber gets about a new article.\<close>

definition notification_mail :: "Article \<Rightarrow> User \<Rightarrow> email_message" where
  "notification_mail a s =
     \<lparr>body = generate_notification_email (article_id a) (user_id s),
      recipient_list = [email s], html_message = True\<rparr>"

text \<open>The message a user gets on subscribing, and the state after a first subscription.\<close>

definition subscription_mail :: "User \<Rightarrow> int \<Rightarrow> email_message" where
  "subscription_mail u cid =
     \<lparr>body = generate_subscription_email (user_id u) cid, recipient_list = [email u],
      html_message = False\<rparr>"

definition subscribed :: "world \<Rightarrow> User \<Rightarrow> int \<Rightarrow> Article \<Rightarrow> world" where
  "subscribed w u cid a =
     w\<lparr>db := (db w)\<lparr>subscribers := subscribers (db w) @ [(cid, user_id u)]\<rparr>,
       cache := (cache w)(get_article_cache_key (article_id a) (publication_date a) := None),
       outbox := outbox w @ [subscription_mail u cid]\<rparr>"

text \<open>
  A small portal: Ann is an author with a profile and one news item in the category
  sport, Bob subscribes to that category, Eve is a reader.
\<close>

definition ann :: User where
  "ann = \<lparr>user_id = 1, username = ''ann'', email = ''ann@example.org'', is_active = True,
          is_superuser = False\<rparr>"

definition bob :: User where
  "bob = \<lparr>user_id = 2, username = ''bob'', email = ''bob@example.org'', is_active = True,
          is_superuser = False\<rparr>"

definition eve :: User where
  "eve = \<lparr>user_id = 3, username = ''eve'', email = ''eve@example.org'', is_active = False,
          is_superuser = False\<rparr>"

definition ann_profile :: Profile where
  "ann_profile = \<lparr>profile_id = 1, profile_user = 1\<rparr>"

definition sport :: Category where
  "sport = \<lparr>category_id = 1, category_name = ''sport''\<rparr>"

definition item1 :: Article where
  "item1 = \<lparr>article_id = 1, title = ''Cup'', content = ''Final'', publication_date = 100,
            article_type = True, category = 1, author_profile = ann_profile, rating = None\<rparr>"

definition db0 :: database where
  "db0 = \<lparr>users = [ann, bob, eve],
          groups = [''basic'', ''authors'', ''premium''],
          user_groups = [(1, ''authors'')],
          profiles = [ann_profile],
          categories = [sport],
          subscribers = [(1, 2)],
          articles = [item1]\<rparr>"

definition w0 :: world where
  "w0 = \<lparr>db = db0, cache = Map.empty, outbox = [], queue = [], rendered = []\<rparr>"

definition anonymous_get :: request where
  "anonymous_get = \<lparr>req_method = ''GET'', req_user = None, GET = Map.empty, POST = Map.empty,
                    csrf_ok = True\<rparr>"

definition eve_subscribes :: request where
  "eve_subscribes = \<lparr>req_method = ''POST'', req_user = Some eve, GET = Map.empty,
                     POST = [''article_id'' \<mapsto> ''1''], csrf_ok = True\<rparr>"

text \<open>Requests of Ann to the create view: a complete form, and one naming no category of the database.\<close>

definition ann_creates :: request where
  "ann_creates = \<lparr>req_method = ''POST'', req_user = Some ann,
                  GET = [''article_type'' \<mapsto> ''news''],
                  POST = [''title'' \<mapsto> ''Derby'', ''content'' \<mapsto> ''Tonight'', ''category'' \<mapsto> ''1''],
                  csrf_ok = True\<rparr>"

definition ann_creates_untitled :: request where
  "ann_creates_untitled = \<lparr>req_method = ''POST'', req_user = Some ann,
                  GET = [''article_type'' \<mapsto> ''news''],
                  POST = [''title'' \<mapsto> '''', ''content'' \<mapsto> ''Tonight'', ''category'' \<mapsto> ''1''],
                  csrf_ok = True\<rparr>"

definition ann_creates_unknown_category :: request where
  "ann_creates_unknown_category = \<lparr>req_method = ''POST'', req_user = Some ann,
                  GET = [''article_type'' \<mapsto> ''news''],
                  POST = [''title'' \<mapsto> ''Derby'', ''content'' \<mapsto> ''Tonight'', ''category'' \<mapsto> ''7''],
                  csrf_ok = True\<rparr>"

text \<open>The form page of the create view with its error message.\<close>

definition create_form_page :: "world \<Rightarrow> response" where
  "create_form_page w =
     HttpResponse ''news/create_news.html''
       [(''error'', CtxText all_fields_required),
        (''categories'', CtxCategories (categories (db w)))]"

text \<open>Requests of Ann to the edit view of her news item.\<close>

definition ann_edits :: request where
  "ann_edits = \<lparr>req_method = ''POST'', req_user = Some ann,
                GET = [''article_type'' \<mapsto> ''1''],
                POST = [''title'' \<mapsto> ''Cup final'', ''content'' \<mapsto> ''Report''],
                csrf_ok = True\<rparr>"

text \<open>The row of Ann's news item after she has edited it at time 200.\<close>

definition item1_edited :: Article where
  "item1_edited = \<lparr>article_id = 1, title = ''Cup final'', content = ''Report'',
                   publication_date = 200, article_type = True, category = 1,
                   author_profile = ann_profile, rating = None\<rparr>"

text \<open>Two requests for the activation of Eve's account: one anonymous, one by Bob.\<close>

definition bob_get :: request where
  "bob_get = \<lparr>req_method = ''GET'', req_user = Some bob, GET = [''token'' \<mapsto> ''x''],
              POST = Map.empty, csrf_ok = False\<rparr>"

text \<open>
  Registration: the new user of a valid form, and the welcome message. The check of the
  sample form accepts a name that is not empty and not taken.
\<close>

definition registered_user :: "world \<Rightarrow> request \<Rightarrow> User" where
  "registered_user w req =
     \<lparr>user_id = fresh_id (map user_id (users (db w))),
      username = str_value (POST req ''username''), email = str_value (POST req ''email''),
      is_active = False, is_superuser = False\<rparr>"

definition welcome_mail :: "User \<Rightarrow> int \<Rightarrow> email_message" where
  "welcome_mail u variant =
     \<lparr>body = generate_welcome_email (user_id u) variant, recipient_list = [email u],
      html_message = False\<rparr>"

definition name_is_new :: "database \<Rightarrow> (string \<rightharpoonup> string) \<Rightarrow> bool" where
  "name_is_new d data =
     (case data ''username'' of
        None \<Rightarrow> False
      | Some n \<Rightarrow> n \<noteq> [] \<and> n \<notin> set (map username (users d)))"

definition dan_registers :: request where
  "dan_registers = \<lparr>req_method = ''POST'', req_user = None, GET = Map.empty,
                    POST = [''username'' \<mapsto> ''dan'', ''email'' \<mapsto> ''dan@example.org''],
                    csrf_ok = True\<rparr>"

definition ann_registers_again :: request where
  "ann_registers_again = \<lparr>req_method = ''POST'', req_user = None, GET = Map.empty,
                    POST = [''username'' \<mapsto> ''ann'', ''email'' \<mapsto> ''ann2@example.org''],
                    csrf_ok = True\<rparr>"

definition dan :: User where
  "dan = \<lparr>user_id = 4, username = ''dan'', email = ''dan@example.org'', is_active = False,
          is_superuser = False\<rparr>"

text \<open>The same portal before any group has been created.\<close>

definition w_no_groups :: world where
  "w_no_groups = w0\<lparr>db := db0\<lparr>groups := []\<rparr>\<rparr>"

text \<open>
  The posting limit: the message and the page at the limit; Ann's requests to the check
  with and without a type; a portal in which Ann has published three items today.
\<close>

definition limit_mail :: "User \<Rightarrow> nat \<Rightarrow> string \<Rightarrow> email_message" where
  "limit_mail u post_limit group_name =
     \<lparr>body = generate_limit_email (user_id u) post_limit group_name, recipient_list = [email u],
      html_message = False\<rparr>"

definition limit_page :: "nat \<Rightarrow> response" where
  "limit_page post_limit =
     HttpResponse ''news/post_limit_exceeded.html''
       [(''error_message'', CtxText (limit_message post_limit))]"

definition ann_checks :: request where
  "ann_checks = \<lparr>req_method = ''GET'', req_user = Some ann,
                 GET = [''article_type'' \<mapsto> ''news''], POST = Map.empty, csrf_ok = True\<rparr>"

definition ann_checks_without_type :: request where
  "ann_checks_without_type = \<lparr>req_method = ''GET'', req_user = Some ann,
                 GET = Map.empty, POST = Map.empty, csrf_ok = True\<rparr>"

definition w_busy :: world where
  "w_busy = w0\<lparr>db := db0\<lparr>articles :=
      [item1, item1\<lparr>article_id := 2, publication_date := 110\<rparr>,
       item1\<lparr>article_id := 3, publication_date := 120\<rparr>]\<rparr>\<rparr>"

text \<open>Ann's requests to the edit and delete views with the type \<open>2\<close>.\<close>

definition ann_get_type2 :: request where
  "ann_get_type2 = \<lparr>req_method = ''GET'', req_user = Some ann,
                    GET = [''article_type'' \<mapsto> ''2''], POST = Map.empty, csrf_ok = True\<rparr>"

definition ann_post_type2 :: request where
  "ann_post_type2 = \<lparr>req_method = ''POST'', req_user = Some ann,
                     GET = [''article_type'' \<mapsto> ''2''],
                     POST = [''title'' \<mapsto> ''Cup final'', ''content'' \<mapsto> ''Report''],
                     csrf_ok = True\<rparr>"

definition ann_post_type2_untitled :: request where
  "ann_post_type2_untitled = \<lparr>req_method = ''POST'', req_user = Some ann,
                     GET = [''article_type'' \<mapsto> ''2''],
                     POST = [''content'' \<mapsto> ''Report''],
                     csrf_ok = True\<rparr>"




section \<open>Facts about the queries\<close>

lemma find_article_id: "find_article d i = Some a \<Longrightarrow> article_id a = i"
  by (auto simp: find_article_def find_Some_iff)

lemma find_article_mem: "find_article d i = Some a \<Longrightarrow> a \<in> set (articles d)"
  by (auto simp: find_article_def find_Some_iff)

lemma find_category_id: "find_category d i = Some c \<Longrightarrow> category_id c = i"
  by (auto simp: find_category_def find_Some_iff)

lemma subscriber_ids:
  "u \<in> set (users d) \<Longrightarrow>
   user_id u \<in> set (map user_id (subscribers_all d cid)) \<longleftrightarrow> (cid, user_id u) \<in> set (subscribers d)"
  by (auto simp: subscribers_all_def)

section \<open>The detail view reads through the cache\<close>

text \<open>
  C1. A GET of the detail view on an existing article looks in the cache under the key
  built from the article's id and publication date. On a hit the cached response is the
  answer and nothing changes: nothing is rendered, the cache is as it was. On a miss the
  page is rendered once, stored under that very key with a timeout of 300 seconds, and
  returned.
\<close>

theorem detail_view_read_through:
  assumes "find_article (db w) i = Some a"
  shows "ArticleDetailView_get w req i =
     (case cache w (get_article_cache_key i (publication_date a)) of
        Some (cached_response, t) \<Rightarrow> (Inr cached_response, w)
      | None \<Rightarrow>
          (Inr (detail_page req a),
           w\<lparr>rendered := rendered w @ [''news/article_detail.html''],
             cache := (cache w)(get_article_cache_key i (publication_date a) \<mapsto>
                                 (detail_page req a, 300))\<rparr>))"
  using assms find_article_id [OF assms]
  by (auto simp: ArticleDetailView_get_def get_article_from_cache_def cache_get_def
      set_article_to_cache_def cache_set_def render_def detail_page_def
      split: option.splits)

theorem detail_view_read_through_witness:
  "find_article (db w0) 1 = Some item1
   \<and> ArticleDetailView_get w0 anonymous_get 1 =
       (Inr (detail_page anonymous_get item1),
        w0\<lparr>rendered := [''news/article_detail.html''],
           cache := [get_article_cache_key 1 100 \<mapsto> (detail_page anonymous_get item1, 300)]\<rparr>)"
proof -
  have found: "find_article (db w0) 1 = Some item1"
    by (simp add: find_article_def w0_def db0_def item1_def)
  have miss: "cache w0 (get_article_cache_key 1 (publication_date item1)) = None"
    by (simp add: w0_def)
  show ?thesis
    using found detail_view_read_through [OF found, of anonymous_get] miss
    by (simp add: w0_def item1_def)
qed

section \<open>Notification of a new article\<close>

lemma notify_subscribers_outbox:
  "notify_subscribers w a xs = w\<lparr>outbox := outbox w @ map (notification_mail a) xs\<rparr>"
  by (induction xs arbitrary: w) (simp_all add: send_custom_email_def notification_mail_def)

text \<open>
  C2. With \<open>use_celery\<close> true, \<open>send_article_notification\<close> puts exactly one task with the
  article's id on the queue and sends no mail. With \<open>use_celery\<close> false it queues nothing
  and sends one message per subscriber of the article's category, in the order of the
  subscribers, each addressed to that subscriber's address alone.
\<close>

theorem send_article_notification_dispatch:
  "send_article_notification w a True =
     w\<lparr>queue := queue w @ [send_new_article_notification (article_id a)]\<rparr>
   \<and> send_article_notification w a False =
     w\<lparr>outbox := outbox w @ map (notification_mail a) (subscribers_all (db w) (category a))\<rparr>"
  by (simp add: send_article_notification_def delay_def notify_subscribers_outbox)

theorem send_article_notification_dispatch_witness:
  "queue (send_article_notification w0 item1 True) = [send_new_article_notification 1]
   \<and> outbox (send_article_notification w0 item1 True) = []
   \<and> queue (send_article_notification w0 item1 False) = []
   \<and> outbox (send_article_notification w0 item1 False) =
       [\<lparr>body = generate_notification_email 1 2, recipient_list = [''bob@example.org''],
         html_message = True\<rparr>]"
  using send_article_notification_dispatch [of w0 item1]
  by (simp add: w0_def db0_def item1_def subscribers_all_def notification_mail_def
      ann_def bob_def eve_def)

section \<open>Subscribing to a category\<close>

lemma subscribe_step:
  assumes "csrf_ok req" and "req_user req = Some u" and "u \<in> set (users (db w))"
    and "find_category (db w) cid = Some c"
    and "POST req ''article_id'' = Some s" and "py_int s = Some aid"
    and "find_article (db w) aid = Some a"
  shows "subscribe_to_category w req cid =
     (Inr (HttpResponseRedirect (Named ''article_detail'' [(''id'', aid)])),
      if (cid, user_id u) \<in> set (subscribers (db w)) then w else subscribed w u cid a)"
  using assms find_article_id [OF assms(7)] find_category_id [OF assms(4)]
    subscriber_ids [OF assms(3), of cid]
  by (simp add: subscribe_to_category_def Let_def clear_article_cache_def cache_delete_def
      send_custom_email_def subscribed_def subscription_mail_def)

text \<open>
  C3. A request of a logged-in user that names an existing category and an existing
  article always redirects to the detail page of that article. If the user is not yet a
  subscriber, the user is added to the subscribers of the category, the cache entry of
  the article is deleted and one subscription message goes to the user's address; if the
  user is a subscriber already, database, cache and sent mail stay as they are. Repeating
  the request therefore gives the same response and changes nothing further.
\<close>

theorem subscribe_acts_once:
  assumes "csrf_ok req" and "req_user req = Some u" and "u \<in> set (users (db w))"
    and "find_category (db w) cid = Some c"
    and "POST req ''article_id'' = Some s" and "py_int s = Some aid"
    and "find_article (db w) aid = Some a"
  shows "subscribe_to_category w req cid =
     (Inr (HttpResponseRedirect (Named ''article_detail'' [(''id'', aid)])),
      if (cid, user_id u) \<in> set (subscribers (db w)) then w else subscribed w u cid a)
    \<and> subscribe_to_category (snd (subscribe_to_category w req cid)) req cid =
        subscribe_to_category w req cid"
proof -
  let ?w' = "if (cid, user_id u) \<in> set (subscribers (db w)) then w else subscribed w u cid a"
  have first: "subscribe_to_category w req cid =
     (Inr (HttpResponseRedirect (Named ''article_detail'' [(''id'', aid)])), ?w')"
    by (rule subscribe_step [OF assms])
  have users': "u \<in> set (users (db ?w'))"
    using assms(3) by (simp add: subscribed_def)
  have cat': "find_category (db ?w') cid = Some c"
    using assms(4) by (simp add: subscribed_def find_category_def)
  have art': "find_article (db ?w') aid = Some a"
    using assms(7) by (simp add: subscribed_def find_article_def)
  have member': "(cid, user_id u) \<in> set (subscribers (db ?w'))"
    by (simp add: subscribed_def)
  have second: "subscribe_to_category ?w' req cid =
     (Inr (HttpResponseRedirect (Named ''article_detail'' [(''id'', aid)])), ?w')"
    using subscribe_step [OF assms(1,2) users' cat' assms(5,6) art'] member'
    by (simp only: if_True)
  show ?thesis
    using first second by simp
qed

theorem subscribe_acts_once_witness:
  "csrf_ok eve_subscribes \<and> req_user eve_subscribes = Some eve \<and> eve \<in> set (users (db w0))
   \<and> find_category (db w0) 1 = Some sport \<and> POST eve_subscribes ''article_id'' = Some ''1''
   \<and> py_int ''1'' = Some 1 \<and> find_article (db w0) 1 = Some item1
   \<and> subscribe_to_category w0 eve_subscribes 1 =
       (Inr (HttpResponseRedirect (Named ''article_detail'' [(''id'', 1)])),
        subscribed w0 eve 1 item1)
   \<and> subscribe_to_category (subscribed w0 eve 1 item1) eve_subscribes 1 =
       (Inr (HttpResponseRedirect (Named ''article_detail'' [(''id'', 1)])),
        subscribed w0 eve 1 item1)"
proof -
  have h1: "csrf_ok eve_subscribes" by (simp add: eve_subscribes_def)
  have h2: "req_user eve_subscribes = Some eve" by (simp add: eve_subscribes_def)
  have h3: "eve \<in> set (users (db w0))" by (simp add: w0_def db0_def)
  have h4: "find_category (db w0) 1 = Some sport"
    by (simp add: find_category_def w0_def db0_def sport_def)
  have h5: "POST eve_subscribes ''article_id'' = Some ''1''" by (simp add: eve_subscribes_def)
  have h6: "py_int ''1'' = Some 1" by (simp add: py_int_def digit_of_def)
  have h7: "find_article (db w0) 1 = Some item1"
    by (simp add: find_article_def w0_def db0_def item1_def)
  have fresh: "(1, user_id eve) \<notin> set (subscribers (db w0))"
    by (simp add: w0_def db0_def eve_def)
  note both = subscribe_acts_once [OF h1 h2 h3 h4 h5 h6 h7]
  have first: "subscribe_to_category w0 eve_subscribes 1 =
       (Inr (HttpResponseRedirect (Named ''article_detail'' [(''id'', 1)])),
        subscribed w0 eve 1 item1)"
    using both fresh by simp
  have again: "subscribe_to_category (snd (subscribe_to_category w0 eve_subscribes 1))
       eve_subscribes 1 = subscribe_to_category w0 eve_subscribes 1"
    using both by (rule conjunct2)
  have second: "subscribe_to_category (subscribed w0 eve 1 item1) eve_subscribes 1 =
       (Inr (HttpResponseRedirect (Named ''article_detail'' [(''id'', 1)])),
        subscribed w0 eve 1 item1)"
    using again unfolding first by simp
  show ?thesis
    using h1 h2 h3 h4 h5 h6 h7 first second by blast
qed

section \<open>Creating an article\<close>

lemma fold_max_ge: "m \<le> fold max ids (m::int)"
  by (induction ids arbitrary: m) (auto intro: order_trans [OF max.cobounded2])

lemma fold_max_mem: "x \<in> set ids \<Longrightarrow> x \<le> fold max ids (m::int)"
proof (induction ids arbitrary: m)
  case Nil
  then show ?case by simp
next
  case (Cons y ys)
  show ?case
  proof (cases "x = y")
    case True
    have "y \<le> max y m" by simp
    also have "\<dots> \<le> fold max ys (max y m)" by (rule fold_max_ge)
    finally show ?thesis using True by simp
  next
    case False
    with Cons.prems have "x \<in> set ys" by simp
    then show ?thesis using Cons.IH by simp
  qed
qed

lemma fresh_id_new: "fresh_id ids \<notin> set ids"
proof
  assume "fresh_id ids \<in> set ids"
  then have "fresh_id ids \<le> fold max ids 0" by (rule fold_max_mem)
  then show False by (simp add: fresh_id_def)
qed

text \<open>
  C4, as the code has it. A POST to the create view in which title, content or category
  id is missing or empty returns the form page with the error message; database, queue
  and mail are untouched. When all three are present, the category id is a number that
  names a category of the database, and the requesting user has a profile, exactly one
  article with a new id is added, with the posted title, content and category, the
  current time as publication date, the user's profile as author, and \<open>article_type\<close>
  true exactly when the query parameter \<open>article_type\<close> is \<open>news\<close>; one notification
  task for it is queued and the response redirects to the article list.
\<close>

theorem create_post_all_or_nothing:
  "(falsy (POST req ''title'') \<or> falsy (POST req ''content'') \<or> falsy (POST req ''category'') \<longrightarrow>
      ArticleCreateView_post now w req =
        (Inr (create_form_page w), w\<lparr>rendered := rendered w @ [''news/create_news.html'']\<rparr>))
   \<and> (POST req ''title'' = Some t \<and> t \<noteq> [] \<and> POST req ''content'' = Some c \<and> c \<noteq> []
        \<and> POST req ''category'' = Some s \<and> py_int s = Some cid
        \<and> find_category (db w) cid = Some cat
        \<and> req_user req = Some u \<and> user_profile (db w) u = Some p \<longrightarrow>
      (\<exists>a. ArticleCreateView_post now w req =
              (Inr (HttpResponseRedirect (Named ''article_list'' [])),
               w\<lparr>db := (db w)\<lparr>articles := articles (db w) @ [a]\<rparr>,
                 queue := queue w @ [send_new_article_notification (article_id a)]\<rparr>)
            \<and> article_id a \<notin> set (map article_id (articles (db w)))
            \<and> title a = t \<and> content a = c \<and> category a = cid \<and> publication_date a = now
            \<and> author_profile a = p
            \<and> (article_type a \<longleftrightarrow> GET req ''article_type'' = Some ''news'')))"
proof (intro conjI impI)
  assume "falsy (POST req ''title'') \<or> falsy (POST req ''content'') \<or> falsy (POST req ''category'')"
  then show "ArticleCreateView_post now w req =
        (Inr (create_form_page w), w\<lparr>rendered := rendered w @ [''news/create_news.html'']\<rparr>)"
    by (simp add: ArticleCreateView_post_def Let_def return_render_def render_def
        create_form_page_def)
next
  assume h: "POST req ''title'' = Some t \<and> t \<noteq> [] \<and> POST req ''content'' = Some c \<and> c \<noteq> []
        \<and> POST req ''category'' = Some s \<and> py_int s = Some cid
        \<and> find_category (db w) cid = Some cat
        \<and> req_user req = Some u \<and> user_profile (db w) u = Some p"
  then have s_ne: "s \<noteq> []" by (auto simp: py_int_def)
  let ?a = "\<lparr>article_id = fresh_id (map article_id (articles (db w))), title = t, content = c,
             publication_date = now, article_type = (GET req ''article_type'' = Some ''news''),
             category = cid, author_profile = p, rating = None\<rparr>"
  have "ArticleCreateView_post now w req =
              (Inr (HttpResponseRedirect (Named ''article_list'' [])),
               w\<lparr>db := (db w)\<lparr>articles := articles (db w) @ [?a]\<rparr>,
                 queue := queue w @ [send_new_article_notification (article_id ?a)]\<rparr>)"
    using h s_ne find_category_id [of "db w" cid cat]
    by (simp add: ArticleCreateView_post_def Let_def falsy_def str_value_def
        get_category_by_id_def send_article_notification_def delay_def)
  moreover have "article_id ?a \<notin> set (map article_id (articles (db w)))"
    using fresh_id_new [of "map article_id (articles (db w))"] by simp
  ultimately show "\<exists>a. ArticleCreateView_post now w req =
              (Inr (HttpResponseRedirect (Named ''article_list'' [])),
               w\<lparr>db := (db w)\<lparr>articles := articles (db w) @ [a]\<rparr>,
                 queue := queue w @ [send_new_article_notification (article_id a)]\<rparr>)
            \<and> article_id a \<notin> set (map article_id (articles (db w)))
            \<and> title a = t \<and> content a = c \<and> category a = cid \<and> publication_date a = now
            \<and> author_profile a = p
            \<and> (article_type a \<longleftrightarrow> GET req ''article_type'' = Some ''news'')"
    by (intro exI [of _ ?a]) simp
qed

text \<open>
  Without the condition on the category the second half fails. A form that names
  category 7, which the sample database does not have, has all three
  fields, and the view answers 404 without creating anything.
\<close>

theorem create_post_unknown_category_counterexample:
  "\<not> falsy (POST ann_creates_unknown_category ''title'')
   \<and> \<not> falsy (POST ann_creates_unknown_category ''content'')
   \<and> \<not> falsy (POST ann_creates_unknown_category ''category'')
   \<and> ArticleCreateView_post 200 w0 ann_creates_unknown_category = (Inl Http404, w0)"
  by (simp add: ArticleCreateView_post_def Let_def falsy_def str_value_def
      ann_creates_unknown_category_def get_category_by_id_def py_int_def digit_of_def
      find_category_def w0_def db0_def sport_def)


theorem create_post_all_or_nothing_witness:
  "(falsy (POST ann_creates_untitled ''title'')
      \<and> ArticleCreateView_post 200 w0 ann_creates_untitled =
          (Inr (create_form_page w0), w0\<lparr>rendered := [''news/create_news.html'']\<rparr>))
   \<and> (POST ann_creates ''title'' = Some ''Derby'' \<and> POST ann_creates ''content'' = Some ''Tonight''
      \<and> POST ann_creates ''category'' = Some ''1'' \<and> py_int ''1'' = Some 1
      \<and> find_category (db w0) 1 = Some sport
      \<and> req_user ann_creates = Some ann \<and> user_profile (db w0) ann = Some ann_profile
      \<and> (\<exists>a. ArticleCreateView_post 200 w0 ann_creates =
              (Inr (HttpResponseRedirect (Named ''article_list'' [])),
               w0\<lparr>db := (db w0)\<lparr>articles := [item1, a]\<rparr>,
                  queue := [send_new_article_notification (article_id a)]\<rparr>)
            \<and> article_id a \<noteq> 1
            \<and> title a = ''Derby'' \<and> content a = ''Tonight'' \<and> category a = 1
            \<and> publication_date a = 200 \<and> author_profile a = ann_profile \<and> article_type a))"
proof -
  have empty_title: "falsy (POST ann_creates_untitled ''title'')"
    by (simp add: falsy_def ann_creates_untitled_def)
  have form: "ArticleCreateView_post 200 w0 ann_creates_untitled =
          (Inr (create_form_page w0), w0\<lparr>rendered := [''news/create_news.html'']\<rparr>)"
    using create_post_all_or_nothing [of ann_creates_untitled 200 w0] empty_title
    by (simp add: w0_def)
  have h: "POST ann_creates ''title'' = Some ''Derby'' \<and> ''Derby'' \<noteq> []
      \<and> POST ann_creates ''content'' = Some ''Tonight'' \<and> ''Tonight'' \<noteq> []
      \<and> POST ann_creates ''category'' = Some ''1'' \<and> py_int ''1'' = Some 1
      \<and> find_category (db w0) 1 = Some sport
      \<and> req_user ann_creates = Some ann \<and> user_profile (db w0) ann = Some ann_profile"
    by (simp add: ann_creates_def py_int_def digit_of_def find_category_def user_profile_def
        w0_def db0_def sport_def ann_def ann_profile_def)
  have news: "GET ann_creates ''article_type'' = Some ''news''"
    by (simp add: ann_creates_def)
  have old: "articles (db w0) = [item1]" "queue w0 = []" "article_id item1 = 1"
    by (simp_all add: w0_def db0_def item1_def)
  from create_post_all_or_nothing
    [of ann_creates 200 w0 "''Derby''" "''Tonight''" "''1''" 1 sport ann ann_profile] h
  obtain a where a: "ArticleCreateView_post 200 w0 ann_creates =
              (Inr (HttpResponseRedirect (Named ''article_list'' [])),
               w0\<lparr>db := (db w0)\<lparr>articles := articles (db w0) @ [a]\<rparr>,
                 queue := queue w0 @ [send_new_article_notification (article_id a)]\<rparr>)"
      "article_id a \<notin> set (map article_id (articles (db w0)))"
      "title a = ''Derby''" "content a = ''Tonight''" "category a = 1"
      "publication_date a = 200" "author_profile a = ann_profile"
      "article_type a \<longleftrightarrow> GET ann_creates ''article_type'' = Some ''news''"
    by blast
  have "ArticleCreateView_post 200 w0 ann_creates =
              (Inr (HttpResponseRedirect (Named ''article_list'' [])),
               w0\<lparr>db := (db w0)\<lparr>articles := [item1, a]\<rparr>,
                  queue := [send_new_article_notification (article_id a)]\<rparr>)
            \<and> article_id a \<noteq> 1
            \<and> title a = ''Derby'' \<and> content a = ''Tonight'' \<and> category a = 1
            \<and> publication_date a = 200 \<and> author_profile a = ann_profile \<and> article_type a"
    using a news old by simp
  then show ?thesis
    using empty_title form h by blast
qed

section \<open>Editing an article\<close>

lemma get_article_found:
  assumes "get_article d pk tp = Inr (ArticleObject a)"
  shows "a \<in> set (articles d)" and "article_id a = pk"
    and "tp = Some ''0'' \<or> tp = Some ''1''" and "article_type a \<longleftrightarrow> tp = Some ''1''"
  using assms
  by (auto simp: get_article_def Let_def find_Some_iff split: if_splits option.splits)

lemma find_replaced:
  assumes "\<exists>x \<in> set xs. article_id x = pk" and "article_id b = pk"
  shows "find (\<lambda>x. article_id x = pk) (map (\<lambda>x. if article_id x = pk then b else x) xs) = Some b"
  using assms by (induction xs) auto

lemma find_not_replaced:
  assumes "j \<noteq> pk" and "article_id b = pk"
  shows "find (\<lambda>x. article_id x = j) (map (\<lambda>x. if article_id x = pk then b else x) xs) =
         find (\<lambda>x. article_id x = j) xs"
  using assms by (induction xs) auto

text \<open>
  C5. A POST to the edit view with non-empty title and content, on an article that
  exists with the type the request names, redirects to the detail page and replaces the
  row of that article by one with the posted title and content and the current time as
  publication date; id, category, author profile, type and rating of the row are as
  before, every other article is as before, and no other table changes.
\<close>

theorem edit_post_frame:
  assumes "get_article (db w) pk (GET req ''article_type'') = Inr (ArticleObject a)"
    and "POST req ''title'' = Some t" and "t \<noteq> []"
    and "POST req ''content'' = Some c" and "c \<noteq> []"
  shows "\<exists>b w'. ArticleEditView_post now w req pk =
            (Inr (HttpResponseRedirect (Named ''article_detail'' [(''id'', pk)])), w')
      \<and> w' = w\<lparr>cache := (cache w)(get_article_cache_key pk (publication_date a) := None),
               db := (db w)\<lparr>articles :=
                  map (\<lambda>x. if article_id x = pk then b else x) (articles (db w))\<rparr>\<rparr>
      \<and> find_article (db w') pk = Some b
      \<and> (\<forall>j. j \<noteq> pk \<longrightarrow> find_article (db w') j = find_article (db w) j)
      \<and> title b = t \<and> content b = c \<and> publication_date b = now
      \<and> article_id b = article_id a \<and> category b = category a
      \<and> author_profile b = author_profile a \<and> article_type b = article_type a
      \<and> rating b = rating a"
proof -
  let ?b = "a\<lparr>title := t, content := c, publication_date := now\<rparr>"
  let ?w' = "w\<lparr>cache := (cache w)(get_article_cache_key pk (publication_date a) := None),
               db := (db w)\<lparr>articles :=
                  map (\<lambda>x. if article_id x = pk then ?b else x) (articles (db w))\<rparr>\<rparr>"
  note found = get_article_found [OF assms(1)]
  have run: "ArticleEditView_post now w req pk =
            (Inr (HttpResponseRedirect (Named ''article_detail'' [(''id'', pk)])), ?w')"
    using assms found(2)
    by (simp add: ArticleEditView_post_def Let_def falsy_def str_value_def
        clear_article_cache_def cache_delete_def save_article_def)
  have b_id: "article_id ?b = pk"
    using found(2) by simp
  have present: "\<exists>x \<in> set (articles (db w)). article_id x = pk"
    using found(1,2) by blast
  have stored: "find_article (db ?w') pk = Some ?b"
    using find_replaced [OF present b_id] by (simp add: find_article_def)
  have others: "\<forall>j. j \<noteq> pk \<longrightarrow> find_article (db ?w') j = find_article (db w) j"
    using find_not_replaced [OF _ b_id] by (simp add: find_article_def)
  show ?thesis
    apply (rule exI [of _ ?b])
    apply (rule exI [of _ ?w'])
    using run stored others by simp
qed

theorem edit_post_frame_witness:
  "get_article (db w0) 1 (GET ann_edits ''article_type'') = Inr (ArticleObject item1)
   \<and> POST ann_edits ''title'' = Some ''Cup final'' \<and> POST ann_edits ''content'' = Some ''Report''
   \<and> ArticleEditView_post 200 w0 ann_edits 1 =
       (Inr (HttpResponseRedirect (Named ''article_detail'' [(''id'', 1)])),
        w0\<lparr>cache := (cache w0)(get_article_cache_key 1 100 := None),
           db := (db w0)\<lparr>articles := [item1_edited]\<rparr>\<rparr>)
   \<and> category item1_edited = category item1
   \<and> author_profile item1_edited = author_profile item1
   \<and> article_type item1_edited = article_type item1
   \<and> rating item1_edited = rating item1"
proof -
  have h1: "get_article (db w0) 1 (GET ann_edits ''article_type'') = Inr (ArticleObject item1)"
    by (simp add: get_article_def ann_edits_def w0_def db0_def item1_def)
  have h2: "POST ann_edits ''title'' = Some ''Cup final''"
    and h3: "POST ann_edits ''content'' = Some ''Report''"
    by (simp_all add: ann_edits_def)
  from edit_post_frame [OF h1 h2 _ h3, of 200]
  obtain b w' where run: "ArticleEditView_post 200 w0 ann_edits 1 =
            (Inr (HttpResponseRedirect (Named ''article_detail'' [(''id'', 1)])), w')"
    and w': "w' = w0\<lparr>cache := (cache w0)(get_article_cache_key 1 (publication_date item1) := None),
               db := (db w0)\<lparr>articles :=
                  map (\<lambda>x. if article_id x = 1 then b else x) (articles (db w0))\<rparr>\<rparr>"
    and b: "title b = ''Cup final''" "content b = ''Report''" "publication_date b = 200"
      "article_id b = article_id item1" "category b = category item1"
      "author_profile b = author_profile item1" "article_type b = article_type item1"
      "rating b = rating item1"
    by auto
  have "b = item1_edited"
    using b by (simp add: item1_edited_def item1_def)
  then have "w' = w0\<lparr>cache := (cache w0)(get_article_cache_key 1 100 := None),
           db := (db w0)\<lparr>articles := [item1_edited]\<rparr>\<rparr>"
    using w' by (simp add: w0_def db0_def item1_def)
  then show ?thesis
    using h1 h2 h3 run by (simp add: item1_edited_def item1_def)
qed

section \<open>Activating an account\<close>

text \<open>
  C10. The activation view never looks at the request: two requests for the same user id
  have the same outcome and leave the same state, whoever sends them. For the id of an
  existing user that outcome is the redirect to the login page, and the state differs
  from the one before in that the user's \<open>is_active\<close> flag is true.
\<close>

theorem activation_ignores_requester:
  "ActivateAccountView_get w req1 uid = ActivateAccountView_get w req2 uid
   \<and> (find_user (db w) uid = Some u \<longrightarrow>
        ActivateAccountView_get w req1 uid =
          (Inr (HttpResponseRedirect (Named ''login'' [])),
           w\<lparr>db := (db w)\<lparr>users :=
              map (\<lambda>x. if user_id x = uid then u\<lparr>is_active := True\<rparr> else x) (users (db w))\<rparr>\<rparr>))"
proof -
  have "user_id u = uid" if "find_user (db w) uid = Some u"
    using that by (auto simp: find_user_def find_Some_iff)
  then show ?thesis
    by (simp add: ActivateAccountView_get_def Let_def save_user_def)
qed

theorem activation_ignores_requester_witness:
  "find_user (db w0) 3 = Some eve
   \<and> ActivateAccountView_get w0 anonymous_get 3 = ActivateAccountView_get w0 bob_get 3
   \<and> ActivateAccountView_get w0 bob_get 3 =
       (Inr (HttpResponseRedirect (Named ''login'' [])),
        w0\<lparr>db := (db w0)\<lparr>users := [ann, bob, eve\<lparr>is_active := True\<rparr>]\<rparr>\<rparr>)"
proof -
  have found: "find_user (db w0) 3 = Some eve"
    by (simp add: find_user_def w0_def db0_def ann_def bob_def eve_def)
  have ids: "user_id ann = 1" "user_id bob = 2" "user_id eve = 3" "users (db w0) = [ann, bob, eve]"
    by (simp_all add: ann_def bob_def eve_def w0_def db0_def)
  show ?thesis
    using found activation_ignores_requester [of w0 anonymous_get 3 bob_get eve]
      activation_ignores_requester [of w0 bob_get 3 bob_get eve] ids
    by simp
qed

section \<open>Registration\<close>

lemma add_to_existing_group:
  assumes "g \<in> set (groups (db w))"
  shows "\<exists>w2. add_user_to_group w u g = Inr w2 \<and> in_group (db w2) u g
           \<and> users (db w2) = users (db w) \<and> outbox w2 = outbox w \<and> queue w2 = queue w
           \<and> cache w2 = cache w \<and> rendered w2 = rendered w"
  using assms by (simp add: add_user_to_group_def in_group_def)

text \<open>
  C7, as the code has it. For a valid form, when a group named \<open>basic\<close> exists, exactly
  one user is added; the user has a new id and is inactive and a member of \<open>basic\<close>,
  exactly one welcome message is sent to the user's address, and the response redirects
  to the login page. For an invalid form no user is added and the form is rendered again.
\<close>

theorem register_post_outcome:
  "(is_valid (db w) (POST req) \<and> ''basic'' \<in> set (groups (db w)) \<longrightarrow>
      (\<exists>w'. RegisterView_post is_valid variant w req =
               (Inr (HttpResponseRedirect (Named ''login'' [])), w')
           \<and> users (db w') = users (db w) @ [registered_user w req]
           \<and> user_id (registered_user w req) \<notin> set (map user_id (users (db w)))
           \<and> \<not> is_active (registered_user w req)
           \<and> in_group (db w') (registered_user w req) ''basic''
           \<and> outbox w' = outbox w @ [welcome_mail (registered_user w req) variant]))
   \<and> (\<not> is_valid (db w) (POST req) \<longrightarrow>
        RegisterView_post is_valid variant w req =
          (Inr (HttpResponse ''registration/register.html'' [(''form'', CtxForm (Some (POST req)))]),
           w\<lparr>rendered := rendered w @ [''registration/register.html'']\<rparr>))"
proof (intro conjI impI)
  assume "\<not> is_valid (db w) (POST req)"
  then show "RegisterView_post is_valid variant w req =
          (Inr (HttpResponse ''registration/register.html'' [(''form'', CtxForm (Some (POST req)))]),
           w\<lparr>rendered := rendered w @ [''registration/register.html'']\<rparr>)"
    by (simp add: RegisterView_post_def return_render_def render_def)
next
  assume h: "is_valid (db w) (POST req) \<and> ''basic'' \<in> set (groups (db w))"
  let ?u = "registered_user w req"
  let ?w1 = "w\<lparr>db := (db w)\<lparr>users := users (db w) @ [?u]\<rparr>\<rparr>"
  have ins: "insert_user w ((form_save_uncommitted (POST req))\<lparr>is_active := False\<rparr>) = (?u, ?w1)"
    by (simp add: insert_user_def Let_def form_save_uncommitted_def registered_user_def)
  have "''basic'' \<in> set (groups (db ?w1))"
    using h by simp
  from add_to_existing_group [OF this, of ?u]
  obtain w2 where w2: "add_user_to_group ?w1 ?u ''basic'' = Inr w2" "in_group (db w2) ?u ''basic''"
      "users (db w2) = users (db ?w1)" "outbox w2 = outbox ?w1"
    by blast
  let ?w3 = "send_custom_email w2 (generate_welcome_email (user_id ?u) variant) [email ?u] False"
  have run: "RegisterView_post is_valid variant w req =
               (Inr (HttpResponseRedirect (Named ''login'' [])), ?w3)"
    using h ins w2(1) by (simp add: RegisterView_post_def Let_def)
  have new: "user_id ?u \<notin> set (map user_id (users (db w)))"
    using fresh_id_new [of "map user_id (users (db w))"] by (simp add: registered_user_def)
  have "users (db ?w3) = users (db w) @ [?u]" "in_group (db ?w3) ?u ''basic''"
    "outbox ?w3 = outbox w @ [welcome_mail ?u variant]" "\<not> is_active ?u"
    using w2 by (simp_all add: send_custom_email_def welcome_mail_def registered_user_def)
  with run new show "\<exists>w'. RegisterView_post is_valid variant w req =
               (Inr (HttpResponseRedirect (Named ''login'' [])), w')
           \<and> users (db w') = users (db w) @ [registered_user w req]
           \<and> user_id (registered_user w req) \<notin> set (map user_id (users (db w)))
           \<and> \<not> is_active (registered_user w req)
           \<and> in_group (db w') (registered_user w req) ''basic''
           \<and> outbox w' = outbox w @ [welcome_mail (registered_user w req) variant]"
    by blast
qed

text \<open>
  Without the condition on the group the first half fails. Before any group exists, a valid form adds the inactive user and then fails in the
  lookup of the group \<open>basic\<close>: no membership, no message, no redirect.
\<close>

theorem register_without_group_counterexample:
  "name_is_new (db w_no_groups) (POST dan_registers)
   \<and> RegisterView_post name_is_new 1 w_no_groups dan_registers =
       (Inl (DoesNotExist ''Group''),
        w_no_groups\<lparr>db := (db w_no_groups)\<lparr>users := [ann, bob, eve, dan]\<rparr>\<rparr>)
   \<and> outbox w_no_groups = []"
  by (simp add: RegisterView_post_def Let_def name_is_new_def dan_registers_def
      w_no_groups_def w0_def db0_def ann_def bob_def eve_def dan_def insert_user_def
      form_save_uncommitted_def str_value_def fresh_id_def add_user_to_group_def)

theorem register_post_outcome_witness:
  "name_is_new (db w0) (POST dan_registers) \<and> ''basic'' \<in> set (groups (db w0))
   \<and> registered_user w0 dan_registers = dan
   \<and> (\<exists>w'. RegisterView_post name_is_new 1 w0 dan_registers =
               (Inr (HttpResponseRedirect (Named ''login'' [])), w')
           \<and> users (db w') = [ann, bob, eve, dan]
           \<and> in_group (db w') dan ''basic''
           \<and> outbox w' = [welcome_mail dan 1])
   \<and> \<not> name_is_new (db w0) (POST ann_registers_again)
   \<and> RegisterView_post name_is_new 1 w0 ann_registers_again =
       (Inr (HttpResponse ''registration/register.html''
               [(''form'', CtxForm (Some (POST ann_registers_again)))]),
        w0\<lparr>rendered := [''registration/register.html'']\<rparr>)"
proof -
  have valid: "name_is_new (db w0) (POST dan_registers) \<and> ''basic'' \<in> set (groups (db w0))"
    by (simp add: name_is_new_def dan_registers_def w0_def db0_def ann_def bob_def eve_def)
  have invalid: "\<not> name_is_new (db w0) (POST ann_registers_again)"
    by (simp add: name_is_new_def ann_registers_again_def w0_def db0_def ann_def bob_def eve_def)
  have who: "registered_user w0 dan_registers = dan"
    by (simp add: registered_user_def dan_def dan_registers_def str_value_def fresh_id_def
        w0_def db0_def ann_def bob_def eve_def)
  have before: "users (db w0) = [ann, bob, eve]" "outbox w0 = []" "rendered w0 = []"
    by (simp_all add: w0_def db0_def)
  have ok: "\<exists>w'. RegisterView_post name_is_new 1 w0 dan_registers =
               (Inr (HttpResponseRedirect (Named ''login'' [])), w')
           \<and> users (db w') = [ann, bob, eve, dan]
           \<and> in_group (db w') dan ''basic''
           \<and> outbox w' = [welcome_mail dan 1]"
    using register_post_outcome [of name_is_new w0 dan_registers 1] valid who before
    by auto
  have again: "RegisterView_post name_is_new 1 w0 ann_registers_again =
       (Inr (HttpResponse ''registration/register.html''
               [(''form'', CtxForm (Some (POST ann_registers_again)))]),
        w0\<lparr>rendered := [''registration/register.html'']\<rparr>)"
    using register_post_outcome [of name_is_new w0 ann_registers_again 1] invalid before
    by simp
  show ?thesis
    using valid who ok invalid again by blast
qed

section \<open>The posting limit\<close>

text \<open>
  C9, as the code has it. For an author or superuser with a profile and a request whose
  \<open>article_type\<close> is \<open>news\<close> or \<open>article\<close>: with a limit of 5 for a member of \<open>premium\<close> and
  3 otherwise, the check redirects to the creation page, changing nothing, exactly when
  the user's articles dated within the last day number less than the limit; at or above
  the limit it sends one limit message to the user's address and renders the
  limit-exceeded page. The database is the same in both cases.
\<close>

theorem check_post_limit_outcome:
  assumes "req_user req = Some u" and "is_superuser u \<or> in_group (db w) u ''authors''"
    and "GET req ''article_type'' = Some tp" and "tp = ''news'' \<or> tp = ''article''"
    and "user_profile (db w) u = Some p"
  shows "check_post_limit now w req =
     (if in_group (db w) u ''premium'' then
        (if posts_since (db w) p (now - 86400000000) < 5
         then (Inr (HttpResponseRedirect (Path (''/create/?article_type='' @ tp))), w)
         else (Inr (limit_page 5),
               w\<lparr>outbox := outbox w @ [limit_mail u 5 ''premium''],
                 rendered := rendered w @ [''news/post_limit_exceeded.html'']\<rparr>))
      else
        (if posts_since (db w) p (now - 86400000000) < 3
         then (Inr (HttpResponseRedirect (Path (''/create/?article_type='' @ tp))), w)
         else (Inr (limit_page 3),
               w\<lparr>outbox := outbox w @ [limit_mail u 3 ''basic''],
                 rendered := rendered w @ [''news/post_limit_exceeded.html'']\<rparr>)))"
  using assms
  by (auto simp: check_post_limit_def is_author_or_superuser_def Let_def timedelta_days_def
      str_value_def send_custom_email_def return_render_def render_def limit_mail_def
      limit_page_def)

text \<open>
  Without the condition on the request the equivalence fails. Ann is an
  author with one item in the last day, below her limit of 3, but her request names no
  \<open>article_type\<close>, and the check answers Bad Request.
\<close>

theorem check_post_limit_without_type_counterexample:
  "is_author_or_superuser (db w0) (Some ann)
   \<and> \<not> in_group (db w0) ann ''premium''
   \<and> posts_since (db w0) ann_profile (200 - timedelta_days 1) = 1
   \<and> check_post_limit 200 w0 ann_checks_without_type =
       (Inr (HttpResponseBadRequest ''Invalid article_type parameter''), w0)"
  by (simp add: check_post_limit_def is_author_or_superuser_def in_group_def posts_since_def
      timedelta_days_def ann_checks_without_type_def w0_def db0_def ann_def item1_def Let_def)

theorem check_post_limit_outcome_witness:
  "req_user ann_checks = Some ann \<and> in_group (db w0) ann ''authors''
   \<and> GET ann_checks ''article_type'' = Some ''news''
   \<and> user_profile (db w0) ann = Some ann_profile \<and> user_profile (db w_busy) ann = Some ann_profile
   \<and> posts_since (db w0) ann_profile (200 - 86400000000) = 1
   \<and> check_post_limit 200 w0 ann_checks =
       (Inr (HttpResponseRedirect (Path ''/create/?article_type=news'')), w0)
   \<and> posts_since (db w_busy) ann_profile (200 - 86400000000) = 3
   \<and> check_post_limit 200 w_busy ann_checks =
       (Inr (limit_page 3),
        w_busy\<lparr>outbox := [limit_mail ann 3 ''basic''],
               rendered := [''news/post_limit_exceeded.html'']\<rparr>)"
proof -
  have h1: "req_user ann_checks = Some ann"
    and h3: "GET ann_checks ''article_type'' = Some ''news''"
    by (simp_all add: ann_checks_def)
  have h2: "is_superuser ann \<or> in_group (db w0) ann ''authors''"
    and h2': "is_superuser ann \<or> in_group (db w_busy) ann ''authors''"
    and h2'': "in_group (db w0) ann ''authors''"
    by (simp_all add: in_group_def w0_def w_busy_def db0_def ann_def)
  have h4: "''news'' = ''news'' \<or> ''news'' = ''article''" by simp
  have h5: "user_profile (db w0) ann = Some ann_profile"
    and h5': "user_profile (db w_busy) ann = Some ann_profile"
    by (simp_all add: user_profile_def w0_def w_busy_def db0_def ann_def ann_profile_def)
  have basic: "\<not> in_group (db w0) ann ''premium''" "\<not> in_group (db w_busy) ann ''premium''"
    by (simp_all add: in_group_def w0_def w_busy_def db0_def ann_def)
  have n0: "posts_since (db w0) ann_profile (200 - 86400000000) = 1"
    by (simp add: posts_since_def w0_def db0_def item1_def)
  have n3: "posts_since (db w_busy) ann_profile (200 - 86400000000) = 3"
    by (simp add: posts_since_def w_busy_def w0_def db0_def item1_def)
  have empty: "outbox w_busy = []" "rendered w_busy = []"
    by (simp_all add: w_busy_def w0_def)
  have below: "check_post_limit 200 w0 ann_checks =
       (Inr (HttpResponseRedirect (Path ''/create/?article_type=news'')), w0)"
    using check_post_limit_outcome [OF h1 h2 h3 h4 h5, of 200] basic n0 by simp
  have at_limit: "check_post_limit 200 w_busy ann_checks =
       (Inr (limit_page 3),
        w_busy\<lparr>outbox := [limit_mail ann 3 ''basic''],
               rendered := [''news/post_limit_exceeded.html'']\<rparr>)"
    using check_post_limit_outcome [OF h1 h2' h3 h4 h5', of 200] basic n3 empty by simp
  show ?thesis
    using h1 h2'' h3 h5 h5' n0 n3 below at_limit by blast
qed

section \<open>Edit and delete with an unknown type\<close>

text \<open>
  C8. Ann, an author, asks for the edit and the delete view of article 1 with
  \<open>article_type=2\<close>. \<open>get_article\<close> hands the Bad Request object back to the handler, which
  uses it as an article: each of the four handlers fails with an attribute error, which
  the framework answers with status 500, not 400, and the state is unchanged. An edit
  POST without a title puts the object into the form page instead and answers 200. In
  no case is the database changed.
\<close>

theorem edit_delete_unknown_type_status:
  "ArticleEditView 200 w0 ann_get_type2 1 = (Inl (AttributeError ''article_type''), w0)
   \<and> ArticleEditView 200 w0 ann_post_type2 1 = (Inl (AttributeError ''id''), w0)
   \<and> ArticleDeleteView w0 ann_get_type2 1 = (Inl (AttributeError ''article_type''), w0)
   \<and> ArticleDeleteView w0 ann_post_type2 1 = (Inl (AttributeError ''id''), w0)
   \<and> status_code (fst (ArticleEditView 200 w0 ann_get_type2 1)) = 500
   \<and> status_code (fst (ArticleEditView 200 w0 ann_post_type2 1)) = 500
   \<and> status_code (fst (ArticleDeleteView w0 ann_get_type2 1)) = 500
   \<and> status_code (fst (ArticleDeleteView w0 ann_post_type2 1)) = 500
   \<and> status_code (fst (ArticleEditView 200 w0 ann_post_type2_untitled 1)) = 200
   \<and> db (snd (ArticleEditView 200 w0 ann_post_type2_untitled 1)) = db w0"
  by (simp add: ArticleEditView_def ArticleDeleteView_def dispatch_def as_view_def test_func_def
      in_group_def ArticleEditView_get_def ArticleEditView_post_def ArticleDeleteView_get_def
      ArticleDeleteView_post_def get_article_def falsy_def Let_def return_render_def render_def
      ann_get_type2_def ann_post_type2_def ann_post_type2_untitled_def w0_def db0_def ann_def)

section \<open>What leaves the cache\<close>
























end
